theory Spec2Isabelle
  imports Main "HOL-Library.Sublist"
begin

section \<open>Python values, the state dictionary, exceptions\<close>

text \<open>
  The values stored under the keys of \<open>AgentState\<close> (agent.py, lines 8-15) are Python
  strings or \<open>None\<close> (the nodes write \<open>"error": None\<close>). A Python string is modelled as an
  Isabelle \<open>string\<close>, one \<open>char\<close> per code point, code points 0 to 255.
\<close>

datatype pyval = PNone | PStr string

text \<open>Interpolation \<open>{v}\<close> inside an f-string.\<close>

fun py_format :: "pyval \<Rightarrow> string" where
  "py_format PNone = ''None''"
| "py_format (PStr s) = s"

text \<open>
  The state and every update a node returns are Python dictionaries with string keys:
  a key can be absent, hold \<open>None\<close>, or hold a string.
\<close>

type_synonym state = "string \<rightharpoonup> pyval"

text \<open>
  An exception raised inside a node is a \<open>KeyError\<close> of a dictionary lookup, or an
  exception of the database or of the LLM call, which carries its message.
  \<open>exn_str\<close> is \<open>str(e)\<close>, the text that \<open>{e}\<close> interpolates; for a \<open>KeyError\<close> it is the
  key in single quotes.
\<close>

datatype exn = KeyError string | Exception string

fun exn_str :: "exn \<Rightarrow> string" where
  "exn_str (KeyError k) = [CHR 0x27] @ k @ [CHR 0x27]"
| "exn_str (Exception m) = m"

text \<open>\<open>state[k]\<close>: raises \<open>KeyError\<close> on a missing key.\<close>

definition getitem :: "state \<Rightarrow> string \<Rightarrow> exn + pyval" where
  "getitem s k = (case s k of None \<Rightarrow> Inl (KeyError k) | Some v \<Rightarrow> Inr v)"

text \<open>
  The truth value of \<open>state.get(k)\<close>, as tested by \<open>if state.get("error")\<close>: a missing
  key gives \<open>None\<close>, and \<open>None\<close> and the empty string are false.
\<close>

fun truthy :: "pyval option \<Rightarrow> bool" where
  "truthy None = False"
| "truthy (Some PNone) = False"
| "truthy (Some (PStr s)) = (s \<noteq> [])"

section \<open>Strings: strip, and the clean-up of the LLM response\<close>

text \<open>
  \<open>str.isspace\<close> on one character, for the code points below 256: tab, line feed,
  vertical tab, form feed, carriage return, the separators 28 to 31, space, NEL (133)
  and the no-break space (160).
\<close>

definition py_isspace :: "char \<Rightarrow> bool" where
  "py_isspace c = ((of_char c :: nat) \<in> {9, 10, 11, 12, 13, 28, 29, 30, 31, 32, 133, 160})"

text \<open>\<open>s.strip()\<close>: drops the leading and the trailing whitespace.\<close>

definition py_strip :: "string \<Rightarrow> string" where
  "py_strip s = rev (dropWhile py_isspace (rev (dropWhile py_isspace s)))"

text \<open>
  agent.py, lines 47-52, from the response text \<open>msg.content\<close> to the value stored under
  \<open>sql_query\<close>. \<open>startswith\<close> and \<open>endswith\<close> are \<open>prefix\<close> and \<open>suffix\<close>; \<open>s[6:]\<close> is
  \<open>drop 6 s\<close>; \<open>s[:-3]\<close> is reached only when \<open>s\<close> ends with the three backticks, so it
  has at least three characters and is \<open>take (length s - 3) s\<close>.
\<close>

definition clean_sql :: "string \<Rightarrow> string" where
  "clean_sql content =
     (let sql_query = py_strip content;
          sql_query = (if prefix ''```sql'' sql_query then drop 6 sql_query else sql_query);
          sql_query = (if suffix ''```'' sql_query
                       then take (length sql_query - 3) sql_query else sql_query)
      in py_strip sql_query)"

section \<open>The outside world\<close>

text \<open>
  The database and the LLM are outside the program. Each call takes the state of the
  world \<open>'w\<close> and returns its outcome, an exception or a value, with the world after the
  call, so that two calls with the same arguments may differ. \<open>run\<close> stands for
  \<open>str(db.run(q))\<close>. \<open>chat_groq\<close> is the constructor call
  \<open>ChatGroq(temperature=0, model_name="llama-3.3-70b-versatile")\<close> of lines 33 and 89,
  which gives the client or raises (for one, when no API key is configured), and
  \<open>llm_invoke\<close> is \<open>llm.invoke(prompt).content\<close> on that client.
\<close>

record ('w, 'db, 'llm) env =
  from_uri :: "pyval \<Rightarrow> 'w \<Rightarrow> (exn + 'db) \<times> 'w"
  get_table_info :: "'db \<Rightarrow> 'w \<Rightarrow> (exn + string) \<times> 'w"
  run :: "'db \<Rightarrow> pyval \<Rightarrow> 'w \<Rightarrow> (exn + string) \<times> 'w"
  chat_groq :: "'w \<Rightarrow> (exn + 'llm) \<times> 'w"
  llm_invoke :: "'llm \<Rightarrow> string \<Rightarrow> 'w \<Rightarrow> (exn + string) \<times> 'w"

text \<open>
  A node takes the state and the world, and returns the lines it printed, the update it
  returns (or the exception that leaves it), and the world afterwards.
\<close>

type_synonym 'w node = "state \<Rightarrow> 'w \<Rightarrow> string list \<times> (exn + state) \<times> 'w"

section \<open>The four nodes\<close>

text \<open>
  Each \<open>try:\<close> block is a function of its own, named after its node: it gives the
  update that the block returns, or the exception that leaves the block. The node around
  it is the \<open>except Exception as e:\<close> handler, and what the node does outside the block
  is outside the handler: an exception there leaves the node.
\<close>

definition get_schema_try :: "('w, 'db, 'llm) env \<Rightarrow> state \<Rightarrow> 'w \<Rightarrow> (exn + state) \<times> 'w" where
  "get_schema_try env state w =
     (case getitem state ''db_uri'' of
        Inl e \<Rightarrow> (Inl e, w)
      | Inr uri \<Rightarrow>
          (case from_uri env uri w of
             (Inl e, w1) \<Rightarrow> (Inl e, w1)
           | (Inr db, w1) \<Rightarrow>
               (case get_table_info env db w1 of
                  (Inl e, w2) \<Rightarrow> (Inl e, w2)
                | (Inr schema, w2) \<Rightarrow>
                    (Inr [''schema'' \<mapsto> PStr schema, ''error'' \<mapsto> PNone], w2))))"

definition get_schema :: "('w, 'db, 'llm) env \<Rightarrow> 'w node" where
  "get_schema env state w =
     (let out = [''---(Node: get_schema)---''] in
      case get_schema_try env state w of
        (Inr upd, w1) \<Rightarrow> (out, Inr upd, w1)
      | (Inl e, w1) \<Rightarrow>
          (out @ [''Error getting schema: '' @ exn_str e],
           Inr [''error'' \<mapsto> PStr (''Error getting schema: '' @ exn_str e)], w1))"

definition sql_prompt :: "pyval \<Rightarrow> pyval \<Rightarrow> string" where
  "sql_prompt schema question =
     ''\<newline>    Based on the database schema below, write a single, syntactically correct PostgreSQL query''
     @ ''\<newline>    to answer the following question. Do not explain the query, just return the SQL.''
     @ ''\<newline>    Schema:''
     @ ''\<newline>    '' @ py_format schema
     @ ''\<newline>    Question:''
     @ ''\<newline>    '' @ py_format question
     @ ''\<newline>    SQL Query:''
     @ ''\<newline>    ''"

definition generate_sql_try ::
  "('w, 'db, 'llm) env \<Rightarrow> 'llm \<Rightarrow> string \<Rightarrow> 'w \<Rightarrow> (exn + state) \<times> 'w" where
  "generate_sql_try env llm prompt w =
     (case llm_invoke env llm prompt w of
        (Inl e, w1) \<Rightarrow> (Inl e, w1)
      | (Inr content, w1) \<Rightarrow>
          (Inr [''sql_query'' \<mapsto> PStr (clean_sql content), ''error'' \<mapsto> PNone], w1))"

text \<open>
  In \<open>generate_sql\<close> the client is built (line 33) and the prompt is formatted (lines
  35-43) after the guard and before the \<open>try:\<close> of line 45.
\<close>

definition generate_sql :: "('w, 'db, 'llm) env \<Rightarrow> 'w node" where
  "generate_sql env state w =
     (let out = [''---(Node: generate_sql)---''] in
      if truthy (state ''error'') then (out, Inr Map.empty, w)
      else
        case chat_groq env w of
          (Inl e, w0) \<Rightarrow> (out, Inl e, w0)
        | (Inr llm, w0) \<Rightarrow>
            (case getitem state ''schema'' of
               Inl e \<Rightarrow> (out, Inl e, w0)
             | Inr schema \<Rightarrow>
                 (case getitem state ''question'' of
                    Inl e \<Rightarrow> (out, Inl e, w0)
                  | Inr question \<Rightarrow>
                      (case generate_sql_try env llm (sql_prompt schema question) w0 of
                         (Inr upd, w1) \<Rightarrow> (out, Inr upd, w1)
                       | (Inl e, w1) \<Rightarrow>
                           (out @ [''Error generating SQL: '' @ exn_str e],
                            Inr [''error'' \<mapsto> PStr (''Error generating SQL: '' @ exn_str e)],
                            w1)))))"

definition execute_sql_try :: "('w, 'db, 'llm) env \<Rightarrow> state \<Rightarrow> 'w \<Rightarrow> (exn + state) \<times> 'w" where
  "execute_sql_try env state w =
     (case getitem state ''db_uri'' of
        Inl e \<Rightarrow> (Inl e, w)
      | Inr uri \<Rightarrow>
          (case from_uri env uri w of
             (Inl e, w1) \<Rightarrow> (Inl e, w1)
           | (Inr db, w1) \<Rightarrow>
               (case getitem state ''sql_query'' of
                  Inl e \<Rightarrow> (Inl e, w1)
                | Inr q \<Rightarrow>
                    (case run env db q w1 of
                       (Inl e, w2) \<Rightarrow> (Inl e, w2)
                     | (Inr result, w2) \<Rightarrow>
                         (Inr [''sql_result'' \<mapsto> PStr result, ''error'' \<mapsto> PNone], w2)))))"

definition execute_sql :: "('w, 'db, 'llm) env \<Rightarrow> 'w node" where
  "execute_sql env state w =
     (let out = [''---(Node: execute_sql)---''] in
      if truthy (state ''error'') then (out, Inr Map.empty, w)
      else
        case execute_sql_try env state w of
          (Inr upd, w1) \<Rightarrow> (out, Inr upd, w1)
        | (Inl e, w1) \<Rightarrow>
            (let out' = out @ [''Error executing SQL: '' @ exn_str e] in
             case getitem state ''sql_query'' of
               Inl e' \<Rightarrow> (out', Inl e', w1)
             | Inr q \<Rightarrow>
                 (out',
                  Inr [''error'' \<mapsto> PStr (''Error executing SQL: '' @ exn_str e
                                          @ ''. Check your query: '' @ py_format q)],
                  w1)))"

text \<open>The prompt of \<open>generate_answer\<close>, lines 73-87; the lookups can raise \<open>KeyError\<close>.\<close>

definition answer_prompt :: "state \<Rightarrow> exn + string" where
  \<open>answer_prompt state =
     (if truthy (state ''error'') then
        (case getitem state ''question'' of
           Inl e \<Rightarrow> Inl e
         | Inr question \<Rightarrow>
             (case getitem state ''error'' of
                Inl e \<Rightarrow> Inl e
              | Inr err \<Rightarrow>
                  Inr (''\<newline>        An error occurred trying to answer the question: "''
                       @ py_format question @ ''"''
                       @ ''\<newline>        The error was:''
                       @ ''\<newline>        '' @ py_format err
                       @ ''\<newline>        Please explain this error to the user in a helpful, friendly way.''
                       @ ''\<newline>        '')))
      else
        (case getitem state ''question'' of
           Inl e \<Rightarrow> Inl e
         | Inr question \<Rightarrow>
             (case getitem state ''sql_query'' of
                Inl e \<Rightarrow> Inl e
              | Inr q \<Rightarrow>
                  (case getitem state ''sql_result'' of
                     Inl e \<Rightarrow> Inl e
                   | Inr res \<Rightarrow>
                       Inr (''\<newline>        The user asked: "'' @ py_format question @ ''"''
                            @ ''\<newline>        We ran the SQL query: "'' @ py_format q @ ''"''
                            @ ''\<newline>        And got this result: "'' @ py_format res @ ''"''
                            @ ''\<newline>        Please provide a concise, natural language answer to the user''
                            @ ''\<newline>        based on this information.''
                            @ ''\<newline>        '')))))\<close>

definition generate_answer :: "('w, 'db, 'llm) env \<Rightarrow> 'w node" where
  "generate_answer env state w =
     (let out = [''---(Node: generate_answer)---''] in
      case answer_prompt state of
        Inl e \<Rightarrow> (out, Inl e, w)
      | Inr prompt \<Rightarrow>
          (case chat_groq env w of
             (Inl e, w0) \<Rightarrow> (out, Inl e, w0)
           | (Inr llm, w0) \<Rightarrow>
               (case llm_invoke env llm prompt w0 of
                  (Inl e, w1) \<Rightarrow> (out, Inl e, w1)
                | (Inr content, w1) \<Rightarrow> (out, Inr [''answer'' \<mapsto> PStr content], w1))))"

section \<open>The graph and the entry point\<close>

text \<open>
  What \<open>get_compiled_app\<close> builds with LangGraph (lines 102-113): named nodes, an entry
  point, and one outgoing edge per node. \<open>invoke\<close> runs the entry node, merges the
  update it returns into the state (the returned keys overwrite, the others stay), and
  follows the edge, until the target is \<open>END\<close> or the node has no edge; an exception
  leaving a node leaves \<open>invoke\<close>. LangGraph stops a run after \<open>recursion_limit\<close>
  steps, 25 by default, with a \<open>GraphRecursionError\<close>. So three things can leave
  \<open>invoke\<close>: an exception raised by a node, the \<open>GraphRecursionError\<close>, or an edge to
  a name that is no node.
\<close>

datatype failure = Raised exn | GraphRecursionError | UnknownNode string

record 'w graph =
  nodes :: "(string \<times> 'w node) list"
  entry_point :: string
  edges :: "(string \<times> string) list"

definition END :: string where
  "END = ''__end__''"

definition recursion_limit :: nat where
  "recursion_limit = 25"

fun run_graph ::
  "nat \<Rightarrow> 'w graph \<Rightarrow> string \<Rightarrow> state \<Rightarrow> 'w \<Rightarrow> string list \<times> (failure + state) \<times> 'w" where
  "run_graph 0 g n state w = ([], Inl GraphRecursionError, w)"
| "run_graph (Suc k) g n state w =
     (case map_of (nodes g) n of
        None \<Rightarrow> ([], Inl (UnknownNode n), w)
      | Some f \<Rightarrow>
          (case f state w of
             (out, Inl e, w1) \<Rightarrow> (out, Inl (Raised e), w1)
           | (out, Inr upd, w1) \<Rightarrow>
               (case map_of (edges g) n of
                  None \<Rightarrow> (out, Inr (state ++ upd), w1)
                | Some n' \<Rightarrow>
                    if n' = END then (out, Inr (state ++ upd), w1)
                    else (case run_graph k g n' (state ++ upd) w1 of
                            (out', r, w2) \<Rightarrow> (out @ out', r, w2)))))"

definition invoke ::
  "'w graph \<Rightarrow> state \<Rightarrow> 'w \<Rightarrow> string list \<times> (failure + state) \<times> 'w" where
  "invoke g state w = run_graph recursion_limit g (entry_point g) state w"

definition get_compiled_app :: "('w, 'db, 'llm) env \<Rightarrow> 'w graph" where
  "get_compiled_app env =
     \<lparr>nodes = [(''get_schema'', get_schema env),
               (''generate_sql'', generate_sql env),
               (''execute_sql'', execute_sql env),
               (''generate_answer'', generate_answer env)],
      entry_point = ''get_schema'',
      edges = [(''get_schema'', ''generate_sql''),
               (''generate_sql'', ''execute_sql''),
               (''execute_sql'', ''generate_answer''),
               (''generate_answer'', END)]\<rparr>"

definition fallback :: string where
  "fallback = ''I'' @ [CHR 0x27] @ ''m sorry, I encountered an error and couldn''
              @ [CHR 0x27] @ ''t process your request.''"

definition initial_state :: "string \<Rightarrow> string \<Rightarrow> state" where
  "initial_state question db_uri = [''question'' \<mapsto> PStr question, ''db_uri'' \<mapsto> PStr db_uri]"

text \<open>\<open>final_state.get("answer", fallback)\<close>, line 125.\<close>

definition get_answer :: "state \<Rightarrow> pyval" where
  "get_answer final_state =
     (case final_state ''answer'' of None \<Rightarrow> PStr fallback | Some v \<Rightarrow> v)"

definition run_agent_graph ::
  "('w, 'db, 'llm) env \<Rightarrow> string \<Rightarrow> string \<Rightarrow> 'w \<Rightarrow> string list \<times> (failure + pyval) \<times> 'w" where
  "run_agent_graph env question db_uri w =
     (let app = get_compiled_app env in
      case invoke app (initial_state question db_uri) w of
        (out, Inl e, w1) \<Rightarrow> (out, Inl e, w1)
      | (out, Inr final_state, w1) \<Rightarrow> (out, Inr (get_answer final_state), w1))"

section \<open>The chain of nodes, and a demonstration world\<close>

text \<open>
  The edges of the graph make one chain; \<open>run_nodes\<close> runs a list of nodes in sequence
  with the same merge, and \<open>pipeline\<close> is the chain in the order of the edges.
\<close>

fun run_nodes :: "'w node list \<Rightarrow> state \<Rightarrow> 'w \<Rightarrow> string list \<times> (exn + state) \<times> 'w" where
  "run_nodes [] state w = ([], Inr state, w)"
| "run_nodes (f # fs) state w =
     (case f state w of
        (out, Inl e, w1) \<Rightarrow> (out, Inl e, w1)
      | (out, Inr upd, w1) \<Rightarrow>
          (case run_nodes fs (state ++ upd) w1 of
             (out', r, w2) \<Rightarrow> (out @ out', r, w2)))"

definition pipeline :: "('w, 'db, 'llm) env \<Rightarrow> 'w node list" where
  "pipeline env = [get_schema env, generate_sql env, execute_sql env, generate_answer env]"

text \<open>
  A world for trying the program on concrete inputs: the world counts the calls to the
  database and to the LLM, the connection always opens, the client is always built, and
  the four outcomes (schema, LLM response to the SQL prompt, query result, LLM response
  to the answer prompt) are given. \<open>demo_env_no_key\<close> is the same world with no API key
  configured: there the constructor raises.
\<close>

definition demo_env ::
  "(exn + string) \<Rightarrow> (exn + string) \<Rightarrow> (exn + string) \<Rightarrow> (exn + string)
     \<Rightarrow> (nat, unit, unit) env" where
  "demo_env schema_r sql_r run_r answer_r =
     \<lparr>from_uri = (\<lambda>uri w. (Inr (), w + 1)),
      get_table_info = (\<lambda>db w. (schema_r, w + 1)),
      run = (\<lambda>db q w. (run_r, w + 1)),
      chat_groq = (\<lambda>w. (Inr (), w)),
      llm_invoke = (\<lambda>llm prompt w.
        (if prefix ''\<newline>    Based'' prompt then sql_r else answer_r, w + 1))\<rparr>"

definition demo_env_no_key ::
  "(exn + string) \<Rightarrow> (exn + string) \<Rightarrow> (exn + string) \<Rightarrow> (exn + string)
     \<Rightarrow> (nat, unit, unit) env" where
  "demo_env_no_key schema_r sql_r run_r answer_r =
     (demo_env schema_r sql_r run_r answer_r)
       \<lparr>chat_groq := (\<lambda>w. (Inl (Exception ''GROQ_API_KEY is not set''), w))\<rparr>"

section \<open>Properties of strip and of the clean-up\<close>

lemma dropWhile_fixed: "dropWhile P xs = xs \<longleftrightarrow> (xs = [] \<or> \<not> P (hd xs))"
proof (cases xs)
  case Nil
  then show ?thesis by simp
next
  case (Cons a list)
  have "length (dropWhile P list) \<le> length list" by (rule length_dropWhile_le)
  then have "dropWhile P list \<noteq> a # list" by auto
  with Cons show ?thesis by simp
qed

lemma py_strip_hd: "py_strip s \<noteq> [] \<Longrightarrow> \<not> py_isspace (hd (py_strip s))"
proof -
  assume ne: "py_strip s \<noteq> []"
  define a where "a = dropWhile py_isspace s"
  define b where "b = dropWhile py_isspace (rev a)"
  have s: "py_strip s = rev b" by (simp add: py_strip_def a_def b_def)
  with ne have bne: "b \<noteq> []" by simp
  have "suffix b (rev a)" unfolding b_def by (rule suffix_dropWhile)
  then have "prefix (rev b) a" by (simp add: suffix_to_prefix)
  with bne have "hd (rev b) = hd a" "a \<noteq> []" by (auto simp: prefix_def)
  moreover have "\<not> py_isspace (hd a)" using \<open>a \<noteq> []\<close> unfolding a_def by (rule hd_dropWhile)
  ultimately show ?thesis using s by simp
qed

lemma py_strip_idem: "py_strip (py_strip s) = py_strip s"
proof -
  define b where "b = dropWhile py_isspace (rev (dropWhile py_isspace s))"
  have s: "py_strip s = rev b" by (simp add: py_strip_def b_def)
  have 1: "dropWhile py_isspace (rev b) = rev b"
    using py_strip_hd[of s] s by (auto simp add: dropWhile_fixed)
  have 2: "dropWhile py_isspace b = b" unfolding b_def by simp
  show ?thesis unfolding s using 1 2 by (simp add: py_strip_def)
qed

lemma py_strip_sublist: "sublist (py_strip s) s"
proof -
  define a where "a = dropWhile py_isspace s"
  have "suffix (dropWhile py_isspace (rev a)) (rev a)" by (rule suffix_dropWhile)
  then have "prefix (py_strip s) a" by (simp add: suffix_to_prefix py_strip_def a_def)
  moreover have "suffix a s" unfolding a_def by (rule suffix_dropWhile)
  ultimately show ?thesis unfolding sublist_altdef' by blast
qed

lemma py_strip_length: "length (py_strip s) \<le> length s"
  using py_strip_sublist[of s] by (rule sublist_length_le)

lemma fence_free_ends:
  assumes "\<not> sublist ''```'' t"
  shows "\<not> prefix ''```sql'' t" and "\<not> suffix ''```'' t"
proof -
  show "\<not> prefix ''```sql'' t"
  proof
    assume "prefix ''```sql'' t"
    then obtain r where "t = ''```sql'' @ r" by (auto simp: prefix_def)
    then have "t = [] @ ''```'' @ (''sql'' @ r)" by simp
    then have "sublist ''```'' t" unfolding sublist_def by blast
    with assms show False by simp
  qed
  show "\<not> suffix ''```'' t"
    using assms suffix_imp_sublist by blast
qed

lemma clean_sql_fixed:
  assumes "\<not> prefix ''```sql'' (py_strip s)" and "\<not> suffix ''```'' (py_strip s)"
  shows "clean_sql s = py_strip s"
  using assms by (simp add: clean_sql_def py_strip_idem)

lemma clean_sql_no_fence:
  assumes "\<not> sublist ''```'' s"
  shows "clean_sql s = py_strip s"
proof -
  have "\<not> sublist ''```'' (py_strip s)"
    using assms py_strip_sublist[of s] sublist_order.order_trans by blast
  then show ?thesis
    using fence_free_ends[of "py_strip s"] clean_sql_fixed by blast
qed

lemma clean_sql_select_1: "clean_sql ''```sql\<newline>SELECT 1;\<newline>```'' = ''SELECT 1;''"
  by code_simp

lemma py_strip_clean_sql: "py_strip (clean_sql s) = clean_sql s"
  by (simp add: clean_sql_def Let_def py_strip_idem)

lemma clean_sql_shorter:
  assumes "py_strip t = t" and "prefix ''```sql'' t \<or> suffix ''```'' t"
  shows "length (clean_sql t) < length t"
proof -
  define u where "u = (if prefix ''```sql'' t then drop 6 t else t)"
  define v where "v = (if suffix ''```'' u then take (length u - 3) u else u)"
  have c: "clean_sql t = py_strip v"
    using assms(1) by (simp add: clean_sql_def Let_def u_def v_def)
  have lv: "length v \<le> length u" by (simp add: v_def)
  have "length v < length t"
  proof (cases "prefix ''```sql'' t")
    case True
    then obtain r where "t = ''```sql'' @ r" by (auto simp: prefix_def)
    then have "length u < length t" using True by (simp add: u_def)
    with lv show ?thesis by simp
  next
    case False
    with assms(2) have sf: "suffix ''```'' t" by simp
    from False have ut: "u = t" by (simp add: u_def)
    from sf obtain r where "t = r @ ''```''" by (auto simp: suffix_def)
    then have "3 \<le> length t" by simp
    with sf ut show ?thesis by (simp add: v_def)
  qed
  with py_strip_length[of v] c show ?thesis by simp
qed

section \<open>The nodes, one at a time\<close>

lemma get_schema_try_Inr:
  assumes "get_schema_try env state w = (Inr upd, w1)"
  shows "\<exists>sc. upd = [''schema'' \<mapsto> PStr sc, ''error'' \<mapsto> PNone]"
  using assms by (auto simp: get_schema_try_def split: sum.splits prod.splits)

lemma generate_sql_try_Inr:
  assumes "generate_sql_try env llm prompt w = (Inr upd, w1)"
  shows "\<exists>x. upd = [''sql_query'' \<mapsto> PStr x, ''error'' \<mapsto> PNone]"
  using assms by (auto simp: generate_sql_try_def split: sum.splits prod.splits)

lemma execute_sql_try_Inr:
  assumes "execute_sql_try env state w = (Inr upd, w1)"
  shows "\<exists>r. upd = [''sql_result'' \<mapsto> PStr r, ''error'' \<mapsto> PNone]"
  using assms by (auto simp: execute_sql_try_def split: sum.splits prod.splits)

lemma get_schema_Inl:
  assumes "get_schema_try env state w = (Inl e, w1)"
  shows "get_schema env state w =
           ([''---(Node: get_schema)---'', ''Error getting schema: '' @ exn_str e],
            Inr [''error'' \<mapsto> PStr (''Error getting schema: '' @ exn_str e)], w1)"
  using assms by (simp add: get_schema_def)

lemma get_schema_Inr:
  assumes "get_schema_try env state w = (Inr upd, w1)"
  shows "get_schema env state w = ([''---(Node: get_schema)---''], Inr upd, w1)"
  using assms by (simp add: get_schema_def)

lemma generate_sql_skip:
  assumes "truthy (state ''error'')"
  shows "generate_sql env state w = ([''---(Node: generate_sql)---''], Inr Map.empty, w)"
  using assms by (simp add: generate_sql_def)

lemma generate_sql_raises:
  assumes "\<not> truthy (state ''error'')"
    and "chat_groq env w = (Inl e, w0)"
  shows "generate_sql env state w = ([''---(Node: generate_sql)---''], Inl e, w0)"
  using assms by (simp add: generate_sql_def)

lemma generate_sql_Inl:
  assumes "\<not> truthy (state ''error'')"
    and "state ''schema'' = Some sc" and "state ''question'' = Some qu"
    and "chat_groq env w = (Inr llm, w0)"
    and "generate_sql_try env llm (sql_prompt sc qu) w0 = (Inl e, w1)"
  shows "generate_sql env state w =
           ([''---(Node: generate_sql)---'', ''Error generating SQL: '' @ exn_str e],
            Inr [''error'' \<mapsto> PStr (''Error generating SQL: '' @ exn_str e)], w1)"
  using assms by (simp add: generate_sql_def getitem_def)

lemma generate_sql_Inr:
  assumes "\<not> truthy (state ''error'')"
    and "state ''schema'' = Some sc" and "state ''question'' = Some qu"
    and "chat_groq env w = (Inr llm, w0)"
    and "generate_sql_try env llm (sql_prompt sc qu) w0 = (Inr upd, w1)"
  shows "generate_sql env state w = ([''---(Node: generate_sql)---''], Inr upd, w1)"
  using assms by (simp add: generate_sql_def getitem_def)

lemma generate_sql_response:
  assumes "\<not> truthy (state ''error'')"
    and "state ''schema'' = Some sc" and "state ''question'' = Some qu"
    and "chat_groq env w = (Inr llm, w0)"
    and "llm_invoke env llm (sql_prompt sc qu) w0 = (Inr content, w1)"
  shows "generate_sql env state w =
           ([''---(Node: generate_sql)---''],
            Inr [''sql_query'' \<mapsto> PStr (clean_sql content), ''error'' \<mapsto> PNone], w1)"
  using assms by (simp add: generate_sql_def generate_sql_try_def getitem_def)

lemma execute_sql_skip:
  assumes "truthy (state ''error'')"
  shows "execute_sql env state w = ([''---(Node: execute_sql)---''], Inr Map.empty, w)"
  using assms by (simp add: execute_sql_def)

lemma execute_sql_Inl:
  assumes "\<not> truthy (state ''error'')" and "state ''sql_query'' = Some sq"
    and "execute_sql_try env state w = (Inl e, w1)"
  shows "execute_sql env state w =
           ([''---(Node: execute_sql)---'', ''Error executing SQL: '' @ exn_str e],
            Inr [''error'' \<mapsto> PStr (''Error executing SQL: '' @ exn_str e
                                    @ ''. Check your query: '' @ py_format sq)], w1)"
  using assms by (simp add: execute_sql_def getitem_def)

lemma execute_sql_Inr:
  assumes "\<not> truthy (state ''error'')"
    and "execute_sql_try env state w = (Inr upd, w1)"
  shows "execute_sql env state w = ([''---(Node: execute_sql)---''], Inr upd, w1)"
  using assms by (simp add: execute_sql_def)

lemma answer_prompt_defined:
  assumes "state ''question'' = Some qv"
    and "truthy (state ''error'')
         \<or> (\<exists>x r. state ''sql_query'' = Some x \<and> state ''sql_result'' = Some r)"
  shows "\<exists>p. answer_prompt state = Inr p"
proof (cases "truthy (state ''error'')")
  case True
  then obtain ev where "state ''error'' = Some ev" by (cases "state ''error''") auto
  with True assms(1) show ?thesis by (simp add: answer_prompt_def getitem_def)
next
  case False
  with assms(2) obtain x r where "state ''sql_query'' = Some x" "state ''sql_result'' = Some r"
    by blast
  with False assms(1) show ?thesis by (simp add: answer_prompt_def getitem_def)
qed

lemma generate_answer_result:
  assumes "answer_prompt state = Inr p"
  shows "generate_answer env state w =
           (case chat_groq env w of
              (Inl e, w0) \<Rightarrow> ([''---(Node: generate_answer)---''], Inl e, w0)
            | (Inr llm, w0) \<Rightarrow>
                (case llm_invoke env llm p w0 of
                   (Inl e, w1) \<Rightarrow> ([''---(Node: generate_answer)---''], Inl e, w1)
                 | (Inr content, w1) \<Rightarrow>
                     ([''---(Node: generate_answer)---''],
                      Inr [''answer'' \<mapsto> PStr content], w1)))"
  using assms by (simp add: generate_answer_def Let_def)

lemma later_node_keeps_error:
  fixes env :: "('w, 'db, 'llm) env"
  assumes "truthy (state ''error'')"
    and "f \<in> {generate_sql env, execute_sql env, generate_answer env}"
    and "f state w = (out, Inr upd, w1)"
  shows "upd ''error'' = None"
proof -
  consider "f = generate_sql env" | "f = execute_sql env" | "f = generate_answer env"
    using assms(2) by blast
  then show ?thesis
  proof cases
    case 1
    with assms(3) generate_sql_skip[where state = state and env = env and w = w, OF assms(1)]
    show ?thesis by auto
  next
    case 2
    with assms(3) execute_sql_skip[where state = state and env = env and w = w, OF assms(1)]
    show ?thesis by auto
  next
    case 3
    with assms(3) show ?thesis
      by (auto simp: generate_answer_def Let_def split: sum.splits prod.splits)
  qed
qed

section \<open>The first three nodes on the initial state\<close>

text \<open>
  A run goes one of five ways: the schema cannot be read; the schema is read and the
  client cannot be built, which ends the run inside \<open>generate_sql\<close>; the client is built
  and the LLM call for the SQL fails; both succeed and the query fails; all three nodes
  succeed.
\<close>

lemma first_three_cases:
  fixes env :: "('w, 'db, 'llm) env" and q uri :: string and w :: 'w
  obtains
    (schema_failed) e w1 u1 where
      "get_schema_try env (initial_state q uri) w = (Inl e, w1)"
      "u1 = [''error'' \<mapsto> PStr (''Error getting schema: '' @ exn_str e)]"
      "get_schema env (initial_state q uri) w =
         ([''---(Node: get_schema)---'', ''Error getting schema: '' @ exn_str e], Inr u1, w1)"
      "generate_sql env (initial_state q uri ++ u1) w1 =
         ([''---(Node: generate_sql)---''], Inr Map.empty, w1)"
      "execute_sql env (initial_state q uri ++ u1 ++ Map.empty) w1 =
         ([''---(Node: execute_sql)---''], Inr Map.empty, w1)"
  | (client_failed) sc w1 u1 e w2 where
      "get_schema_try env (initial_state q uri) w = (Inr u1, w1)"
      "u1 = [''schema'' \<mapsto> PStr sc, ''error'' \<mapsto> PNone]"
      "get_schema env (initial_state q uri) w = ([''---(Node: get_schema)---''], Inr u1, w1)"
      "chat_groq env w1 = (Inl e, w2)"
      "generate_sql env (initial_state q uri ++ u1) w1 =
         ([''---(Node: generate_sql)---''], Inl e, w2)"
  | (sql_failed) sc w1 u1 llm w1' e w2 u2 where
      "get_schema_try env (initial_state q uri) w = (Inr u1, w1)"
      "u1 = [''schema'' \<mapsto> PStr sc, ''error'' \<mapsto> PNone]"
      "get_schema env (initial_state q uri) w = ([''---(Node: get_schema)---''], Inr u1, w1)"
      "chat_groq env w1 = (Inr llm, w1')"
      "generate_sql_try env llm (sql_prompt (PStr sc) (PStr q)) w1' = (Inl e, w2)"
      "u2 = [''error'' \<mapsto> PStr (''Error generating SQL: '' @ exn_str e)]"
      "generate_sql env (initial_state q uri ++ u1) w1 =
         ([''---(Node: generate_sql)---'', ''Error generating SQL: '' @ exn_str e], Inr u2, w2)"
      "execute_sql env (initial_state q uri ++ u1 ++ u2) w2 =
         ([''---(Node: execute_sql)---''], Inr Map.empty, w2)"
  | (run_failed) sc w1 u1 llm w1' x w2 u2 e w3 u3 where
      "get_schema_try env (initial_state q uri) w = (Inr u1, w1)"
      "u1 = [''schema'' \<mapsto> PStr sc, ''error'' \<mapsto> PNone]"
      "get_schema env (initial_state q uri) w = ([''---(Node: get_schema)---''], Inr u1, w1)"
      "chat_groq env w1 = (Inr llm, w1')"
      "generate_sql_try env llm (sql_prompt (PStr sc) (PStr q)) w1' = (Inr u2, w2)"
      "u2 = [''sql_query'' \<mapsto> PStr x, ''error'' \<mapsto> PNone]"
      "generate_sql env (initial_state q uri ++ u1) w1 =
         ([''---(Node: generate_sql)---''], Inr u2, w2)"
      "execute_sql_try env (initial_state q uri ++ u1 ++ u2) w2 = (Inl e, w3)"
      "u3 = [''error'' \<mapsto> PStr (''Error executing SQL: '' @ exn_str e
                                 @ ''. Check your query: '' @ x)]"
      "execute_sql env (initial_state q uri ++ u1 ++ u2) w2 =
         ([''---(Node: execute_sql)---'', ''Error executing SQL: '' @ exn_str e], Inr u3, w3)"
  | (all_ok) sc w1 u1 llm w1' x w2 u2 r w3 u3 where
      "get_schema_try env (initial_state q uri) w = (Inr u1, w1)"
      "u1 = [''schema'' \<mapsto> PStr sc, ''error'' \<mapsto> PNone]"
      "get_schema env (initial_state q uri) w = ([''---(Node: get_schema)---''], Inr u1, w1)"
      "chat_groq env w1 = (Inr llm, w1')"
      "generate_sql_try env llm (sql_prompt (PStr sc) (PStr q)) w1' = (Inr u2, w2)"
      "u2 = [''sql_query'' \<mapsto> PStr x, ''error'' \<mapsto> PNone]"
      "generate_sql env (initial_state q uri ++ u1) w1 =
         ([''---(Node: generate_sql)---''], Inr u2, w2)"
      "execute_sql_try env (initial_state q uri ++ u1 ++ u2) w2 = (Inr u3, w3)"
      "u3 = [''sql_result'' \<mapsto> PStr r, ''error'' \<mapsto> PNone]"
      "execute_sql env (initial_state q uri ++ u1 ++ u2) w2 =
         ([''---(Node: execute_sql)---''], Inr u3, w3)"
proof -
  let ?s0 = "initial_state q uri"
  obtain r1 w1 where t1: "get_schema_try env ?s0 w = (r1, w1)" by (cases "get_schema_try env ?s0 w")
  show ?thesis
  proof (cases r1)
    case (Inl e)
    define u1 where "u1 = [''error'' \<mapsto> PStr (''Error getting schema: '' @ exn_str e)]"
    have tr: "truthy ((?s0 ++ u1) ''error'')" "truthy ((?s0 ++ u1 ++ Map.empty) ''error'')"
      by (simp_all add: u1_def)
    from t1 Inl have t1': "get_schema_try env ?s0 w = (Inl e, w1)" by simp
    have g1: "get_schema env ?s0 w =
        ([''---(Node: get_schema)---'', ''Error getting schema: '' @ exn_str e], Inr u1, w1)"
      unfolding u1_def by (rule get_schema_Inl[OF t1'])
    show ?thesis
      by (rule schema_failed[OF t1' u1_def g1
            generate_sql_skip[where state = "?s0 ++ u1", OF tr(1)]
            execute_sql_skip[where state = "?s0 ++ u1 ++ Map.empty", OF tr(2)]])
  next
    case (Inr u1)
    with t1 have t1': "get_schema_try env ?s0 w = (Inr u1, w1)" by simp
    from get_schema_try_Inr[OF t1'] obtain sc where
      u1: "u1 = [''schema'' \<mapsto> PStr sc, ''error'' \<mapsto> PNone]" by blast
    have g1: "get_schema env ?s0 w = ([''---(Node: get_schema)---''], Inr u1, w1)"
      by (rule get_schema_Inr[OF t1'])
    have s1: "\<not> truthy ((?s0 ++ u1) ''error'')" "(?s0 ++ u1) ''schema'' = Some (PStr sc)"
      "(?s0 ++ u1) ''question'' = Some (PStr q)"
      by (simp_all add: u1 initial_state_def)
    obtain c w1' where c0: "chat_groq env w1 = (c, w1')" by (cases "chat_groq env w1")
    show ?thesis
    proof (cases c)
      case (Inl e)
      with c0 have c1: "chat_groq env w1 = (Inl e, w1')" by simp
      show ?thesis
        by (rule client_failed[OF t1' u1 g1 c1
              generate_sql_raises[where state = "?s0 ++ u1", OF s1(1) c1]])
    next
      case (Inr llm)
      with c0 have c1: "chat_groq env w1 = (Inr llm, w1')" by simp
      obtain r2 w2 where
        t2: "generate_sql_try env llm (sql_prompt (PStr sc) (PStr q)) w1' = (r2, w2)"
        by (cases "generate_sql_try env llm (sql_prompt (PStr sc) (PStr q)) w1'")
      show ?thesis
      proof (cases r2)
        case (Inl e)
        define u2 where "u2 = [''error'' \<mapsto> PStr (''Error generating SQL: '' @ exn_str e)]"
        from t2 Inl have
          t2': "generate_sql_try env llm (sql_prompt (PStr sc) (PStr q)) w1' = (Inl e, w2)"
          by simp
        have tr: "truthy ((?s0 ++ u1 ++ u2) ''error'')" by (simp add: u2_def)
        have g2: "generate_sql env (?s0 ++ u1) w1 =
            ([''---(Node: generate_sql)---'', ''Error generating SQL: '' @ exn_str e], Inr u2, w2)"
          unfolding u2_def by (rule generate_sql_Inl[where state = "?s0 ++ u1", OF s1 c1 t2'])
        show ?thesis
          by (rule sql_failed[OF t1' u1 g1 c1 t2' u2_def g2
                execute_sql_skip[where state = "?s0 ++ u1 ++ u2", OF tr]])
      next
        case (Inr u2)
        with t2 have
          t2': "generate_sql_try env llm (sql_prompt (PStr sc) (PStr q)) w1' = (Inr u2, w2)"
          by simp
        from generate_sql_try_Inr[OF t2'] obtain x where
          u2: "u2 = [''sql_query'' \<mapsto> PStr x, ''error'' \<mapsto> PNone]" by blast
        have g2: "generate_sql env (?s0 ++ u1) w1 = ([''---(Node: generate_sql)---''], Inr u2, w2)"
          by (rule generate_sql_Inr[where state = "?s0 ++ u1", OF s1 c1 t2'])
        have s2: "\<not> truthy ((?s0 ++ u1 ++ u2) ''error'')"
          "(?s0 ++ u1 ++ u2) ''sql_query'' = Some (PStr x)"
          by (simp_all add: u2)
        obtain r3 w3 where t3: "execute_sql_try env (?s0 ++ u1 ++ u2) w2 = (r3, w3)"
          by (cases "execute_sql_try env (?s0 ++ u1 ++ u2) w2")
        show ?thesis
        proof (cases r3)
          case (Inl e)
          with t3 have t3': "execute_sql_try env (?s0 ++ u1 ++ u2) w2 = (Inl e, w3)" by simp
          have g3: "execute_sql env (?s0 ++ u1 ++ u2) w2 =
              ([''---(Node: execute_sql)---'', ''Error executing SQL: '' @ exn_str e],
               Inr [''error'' \<mapsto> PStr (''Error executing SQL: '' @ exn_str e
                                        @ ''. Check your query: '' @ x)], w3)"
            using execute_sql_Inl[where state = "?s0 ++ u1 ++ u2", OF s2 t3'] by simp
          show ?thesis
            by (rule run_failed[OF t1' u1 g1 c1 t2' u2 g2 t3' refl g3])
        next
          case (Inr u3)
          with t3 have t3': "execute_sql_try env (?s0 ++ u1 ++ u2) w2 = (Inr u3, w3)" by simp
          from execute_sql_try_Inr[OF t3'] obtain r where
            u3: "u3 = [''sql_result'' \<mapsto> PStr r, ''error'' \<mapsto> PNone]" by blast
          show ?thesis
            by (rule all_ok[OF t1' u1 g1 c1 t2' u2 g2 t3' u3
                  execute_sql_Inr[where state = "?s0 ++ u1 ++ u2", OF s2(1) t3']])
        qed
      qed
    qed
  qed
qed

section \<open>The graph is the chain of the four nodes\<close>

lemma run_nodes_append:
  "run_nodes (fs @ gs) state w =
     (case run_nodes fs state w of
        (out, Inl e, w1) \<Rightarrow> (out, Inl e, w1)
      | (out, Inr state', w1) \<Rightarrow>
          (case run_nodes gs state' w1 of (out', r, w2) \<Rightarrow> (out @ out', r, w2)))"
proof (induction fs arbitrary: state w)
  case Nil
  show ?case by (simp split: prod.splits)
next
  case (Cons f fs)
  show ?case
    by (simp add: Cons.IH split: prod.splits sum.splits)
qed

lemma run_graph_pipeline:
  "run_graph (Suc (Suc (Suc (Suc k)))) (get_compiled_app env) ''get_schema'' state w
     = (case run_nodes (pipeline env) state w of
          (out, Inl e, w1) \<Rightarrow> (out, Inl (Raised e), w1)
        | (out, Inr state', w1) \<Rightarrow> (out, Inr state', w1))"
  by (simp add: get_compiled_app_def pipeline_def END_def split: prod.splits sum.splits)

lemma invoke_pipeline:
  "invoke (get_compiled_app env) state w =
     (case run_nodes (pipeline env) state w of
        (out, Inl e, w1) \<Rightarrow> (out, Inl (Raised e), w1)
      | (out, Inr state', w1) \<Rightarrow> (out, Inr state', w1))"
proof -
  have fuel: "recursion_limit = Suc (Suc (Suc (Suc 21)))"
    by (simp add: recursion_limit_def)
  have entry: "entry_point (get_compiled_app env) = ''get_schema''"
    by (simp add: get_compiled_app_def)
  show ?thesis
    unfolding invoke_def entry fuel by (rule run_graph_pipeline)
qed

lemma run_agent_graph_pipeline:
  "run_agent_graph env q uri w =
     (case run_nodes (pipeline env) (initial_state q uri) w of
        (out, Inl e, w1) \<Rightarrow> (out, Inl (Raised e), w1)
      | (out, Inr final_state, w1) \<Rightarrow> (out, Inr (get_answer final_state), w1))"
  by (simp add: run_agent_graph_def invoke_pipeline split: prod.splits sum.splits)

lemma pipeline_split:
  "pipeline env = [get_schema env, generate_sql env, execute_sql env] @ [generate_answer env]"
  by (simp add: pipeline_def)

lemma first_three_run:
  fixes env :: "('w, 'db, 'llm) env"
  shows "(\<exists>out s3 w3 p.
            run_nodes [get_schema env, generate_sql env, execute_sql env] (initial_state q uri) w
              = (out, Inr s3, w3)
          \<and> count_list out ''---(Node: generate_answer)---'' = 0
          \<and> answer_prompt s3 = Inr p)
       \<or> (\<exists>w1 e w2.
            chat_groq env w1 = (Inl e, w2)
          \<and> run_nodes [get_schema env, generate_sql env, execute_sql env] (initial_state q uri) w
              = ([''---(Node: get_schema)---'', ''---(Node: generate_sql)---''], Inl e, w2))"
proof (cases rule: first_three_cases[of env q uri w])
  case (schema_failed e w1 u1)
  let ?s3 = "initial_state q uri ++ u1 ++ Map.empty ++ Map.empty"
  have "\<exists>p. answer_prompt ?s3 = Inr p"
    by (rule answer_prompt_defined[where qv = "PStr q"])
       (simp_all add: schema_failed(2) initial_state_def)
  with schema_failed show ?thesis by simp
next
  case (client_failed sc w1 u1 e w2)
  then show ?thesis by auto
next
  case (sql_failed sc w1 u1 llm w1' e w2 u2)
  let ?s3 = "initial_state q uri ++ u1 ++ u2 ++ Map.empty"
  have "\<exists>p. answer_prompt ?s3 = Inr p"
    by (rule answer_prompt_defined[where qv = "PStr q"])
       (simp_all add: sql_failed(2,6) initial_state_def)
  with sql_failed show ?thesis by simp
next
  case (run_failed sc w1 u1 llm w1' x w2 u2 e w3 u3)
  let ?s3 = "initial_state q uri ++ u1 ++ u2 ++ u3"
  have "\<exists>p. answer_prompt ?s3 = Inr p"
    by (rule answer_prompt_defined[where qv = "PStr q"])
       (simp_all add: run_failed(2,6,9) initial_state_def)
  with run_failed show ?thesis by simp
next
  case (all_ok sc w1 u1 llm w1' x w2 u2 r w3 u3)
  let ?s3 = "initial_state q uri ++ u1 ++ u2 ++ u3"
  have "\<exists>p. answer_prompt ?s3 = Inr p"
    by (rule answer_prompt_defined[where qv = "PStr q"])
       (simp_all add: all_ok(2,6,9) initial_state_def)
  with all_ok show ?thesis by simp
qed

lemma first_three_prompt:
  fixes env :: "('w, 'db, 'llm) env"
  assumes "run_nodes [get_schema env, generate_sql env, execute_sql env] (initial_state q uri) w
             = (out, Inr s3, w3)"
  shows "count_list out ''---(Node: generate_answer)---'' = 0 \<and> (\<exists>p. answer_prompt s3 = Inr p)"
  using first_three_run[of env q uri w] assms by auto

lemma pipeline_after_three:
  fixes env :: "('w, 'db, 'llm) env"
  assumes "run_nodes [get_schema env, generate_sql env, execute_sql env] state w
             = (out, Inr s3, w3)"
    and "answer_prompt s3 = Inr p"
  shows "run_nodes (pipeline env) state w =
        (case chat_groq env w3 of
           (Inl e, w4) \<Rightarrow> (out @ [''---(Node: generate_answer)---''], Inl e, w4)
         | (Inr llm, w4) \<Rightarrow>
             (case llm_invoke env llm p w4 of
                (Inl e, w5) \<Rightarrow> (out @ [''---(Node: generate_answer)---''], Inl e, w5)
              | (Inr content, w5) \<Rightarrow>
                  (out @ [''---(Node: generate_answer)---''],
                   Inr (s3 ++ [''answer'' \<mapsto> PStr content]), w5)))"
  unfolding pipeline_split run_nodes_append assms(1)
  by (simp add: generate_answer_result[OF assms(2)] split: prod.splits sum.splits)

lemma pipeline_stopped:
  fixes env :: "('w, 'db, 'llm) env"
  assumes "run_nodes [get_schema env, generate_sql env, execute_sql env] state w
             = (out, Inl e, w2)"
  shows "run_nodes (pipeline env) state w = (out, Inl e, w2)"
  unfolding pipeline_split run_nodes_append assms(1) by simp

lemma run_nodes_keep_error:
  fixes env :: "('w, 'db, 'llm) env"
  assumes "set fs \<subseteq> {generate_sql env, execute_sql env, generate_answer env}"
    and "truthy (state ''error'')"
    and "run_nodes fs state w = (out, Inr state', w1)"
  shows "state' ''error'' = state ''error''"
  using assms
proof (induction fs arbitrary: state w out)
  case Nil
  then show ?case by simp
next
  case (Cons f fs)
  obtain o1 r1 v1 where f1: "f state w = (o1, r1, v1)" by (cases "f state w")
  show ?case
  proof (cases r1)
    case (Inl e)
    with f1 Cons.prems(3) show ?thesis by simp
  next
    case (Inr upd)
    have mem: "f \<in> {generate_sql env, execute_sql env, generate_answer env}"
      using Cons.prems(1) by simp
    from f1 Inr have f1': "f state w = (o1, Inr upd, v1)" by simp
    have keep: "(state ++ upd) ''error'' = state ''error''"
      using later_node_keeps_error[OF Cons.prems(2) mem f1'] by (simp add: map_add_def)
    obtain o2 r2 v2 where rest: "run_nodes fs (state ++ upd) v1 = (o2, r2, v2)"
      by (cases "run_nodes fs (state ++ upd) v1")
    with f1' Cons.prems(3) have "run_nodes fs (state ++ upd) v1 = (o2, Inr state', w1)"
      by simp
    moreover have "set fs \<subseteq> {generate_sql env, execute_sql env, generate_answer env}"
      using Cons.prems(1) by simp
    moreover have "truthy ((state ++ upd) ''error'')"
      using keep Cons.prems(2) by simp
    ultimately have "state' ''error'' = (state ++ upd) ''error''"
      by (rule Cons.IH[rotated 2])
    with keep show ?thesis by simp
  qed
qed

section \<open>The demonstration world\<close>

text \<open>
  The two prompts differ from their sixth character on, so the demonstration LLM tells
  the two calls apart.
\<close>

lemma answer_prompt_not_sql:
  assumes "answer_prompt state = Inr p"
  shows "\<not> prefix ''\<newline>    Based'' p"
  using assms
  by (auto simp: answer_prompt_def split: if_splits sum.splits)

lemma demo_chat_groq: "chat_groq (demo_env a b c d) w = (Inr (), w)"
  by (simp add: demo_env_def)

lemma demo_llm_answer:
  assumes "answer_prompt state = Inr p"
  shows "llm_invoke (demo_env a b c d) llm p w = (d, w + 1)"
  using answer_prompt_not_sql[OF assms] by (simp add: demo_env_def)

lemma demo_get_schema_try:
  "get_schema_try (demo_env a b c d) (initial_state q uri) w =
     (case a of Inl e \<Rightarrow> (Inl e, w + 2)
      | Inr sc \<Rightarrow> (Inr [''schema'' \<mapsto> PStr sc, ''error'' \<mapsto> PNone], w + 2))"
  by (simp add: get_schema_try_def getitem_def demo_env_def initial_state_def split: sum.splits)

lemma demo_sql_prompt: "prefix ''\<newline>    Based'' (sql_prompt sc qu)"
  by (simp add: sql_prompt_def)

lemma demo_generate_sql_try:
  "generate_sql_try (demo_env a b c d) llm (sql_prompt sc qu) w =
     (case b of Inl e \<Rightarrow> (Inl e, w + 1)
      | Inr content \<Rightarrow>
          (Inr [''sql_query'' \<mapsto> PStr (clean_sql content), ''error'' \<mapsto> PNone], w + 1))"
  by (simp add: generate_sql_try_def demo_env_def demo_sql_prompt split: sum.splits)

lemma demo_execute_sql_try:
  assumes "state ''db_uri'' = Some uri" and "state ''sql_query'' = Some sq"
  shows "execute_sql_try (demo_env a b c d) state w =
     (case c of Inl e \<Rightarrow> (Inl e, w + 2)
      | Inr r \<Rightarrow> (Inr [''sql_result'' \<mapsto> PStr r, ''error'' \<mapsto> PNone], w + 2))"
  using assms
  by (simp add: execute_sql_try_def getitem_def demo_env_def split: sum.splits)

text \<open>Where the client is always built, the first three nodes return and the fourth runs.\<close>

lemma demo_pipeline:
  "\<exists>out s3 w3.
      run_nodes [get_schema (demo_env a b c d), generate_sql (demo_env a b c d),
                 execute_sql (demo_env a b c d)] (initial_state q uri) w = (out, Inr s3, w3)
    \<and> run_nodes (pipeline (demo_env a b c d)) (initial_state q uri) w =
        (case d of
           Inl e \<Rightarrow> (out @ [''---(Node: generate_answer)---''], Inl e, w3 + 1)
         | Inr content \<Rightarrow>
             (out @ [''---(Node: generate_answer)---''],
              Inr (s3 ++ [''answer'' \<mapsto> PStr content]), w3 + 1))"
proof -
  let ?E = "demo_env a b c d"
  from first_three_run[of ?E q uri w] obtain out s3 w3 p where
    r: "run_nodes [get_schema ?E, generate_sql ?E, execute_sql ?E] (initial_state q uri) w
          = (out, Inr s3, w3)"
    and a: "answer_prompt s3 = Inr p"
    by (auto simp: demo_chat_groq)
  have "run_nodes (pipeline ?E) (initial_state q uri) w =
        (case d of
           Inl e \<Rightarrow> (out @ [''---(Node: generate_answer)---''], Inl e, w3 + 1)
         | Inr content \<Rightarrow>
             (out @ [''---(Node: generate_answer)---''],
              Inr (s3 ++ [''answer'' \<mapsto> PStr content]), w3 + 1))"
    unfolding pipeline_after_three[OF r a] demo_chat_groq
    by (simp add: demo_llm_answer[OF a] split: sum.splits)
  with r show ?thesis by blast
qed

text \<open>Where no API key is configured, a run with a readable schema ends in \<open>generate_sql\<close>.\<close>

lemma demo_no_key_get_schema:
  "get_schema (demo_env_no_key (Inr sc) b c d) (initial_state q uri) w =
     ([''---(Node: get_schema)---''], Inr [''schema'' \<mapsto> PStr sc, ''error'' \<mapsto> PNone], w + 2)"
  by (simp add: get_schema_def get_schema_try_def getitem_def demo_env_no_key_def demo_env_def
      initial_state_def)

lemma demo_no_key_generate_sql:
  "generate_sql (demo_env_no_key a b c d)
     (initial_state q uri ++ [''schema'' \<mapsto> PStr sc, ''error'' \<mapsto> PNone]) w =
     ([''---(Node: generate_sql)---''], Inl (Exception ''GROQ_API_KEY is not set''), w)"
  by (rule generate_sql_raises) (simp_all add: demo_env_no_key_def demo_env_def)

lemma demo_no_key_run:
  "run_nodes (pipeline (demo_env_no_key (Inr sc) b c d)) (initial_state q uri) w =
     ([''---(Node: get_schema)---'', ''---(Node: generate_sql)---''],
      Inl (Exception ''GROQ_API_KEY is not set''), w + 2)"
  by (simp only: pipeline_def run_nodes.simps demo_no_key_get_schema
      demo_no_key_generate_sql prod.case sum.case append.simps)

section \<open>The claims\<close>

text \<open>
  C1. Every stage that fails is to record a non-empty \<open>error\<close>. In the world with no
  API key and a readable schema, \<open>get_schema\<close> succeeds and \<open>generate_sql\<close> passes its
  guard, then the constructor of line 33 raises outside the \<open>try:\<close> of line 45: the stage
  fails, returns no update, so no \<open>error\<close> is recorded, and the exception ends the run.
  \<open>get_schema\<close> and \<open>execute_sql\<close> open their connection inside their \<open>try:\<close>.
\<close>

theorem generate_sql_client_failure_unrecorded:
  "get_schema (demo_env_no_key (Inr ''users(id)'') (Inr ''SELECT 1;'') (Inr ''[(1,)]'') (Inr ''One.''))
     (initial_state ''How many users are there?'' ''postgresql://db'') 0
     = ([''---(Node: get_schema)---''],
        Inr [''schema'' \<mapsto> PStr ''users(id)'', ''error'' \<mapsto> PNone], 2)
   \<and> \<not> truthy ((initial_state ''How many users are there?'' ''postgresql://db''
                   ++ [''schema'' \<mapsto> PStr ''users(id)'', ''error'' \<mapsto> PNone]) ''error'')
   \<and> generate_sql (demo_env_no_key (Inr ''users(id)'') (Inr ''SELECT 1;'') (Inr ''[(1,)]'') (Inr ''One.''))
       (initial_state ''How many users are there?'' ''postgresql://db''
          ++ [''schema'' \<mapsto> PStr ''users(id)'', ''error'' \<mapsto> PNone]) 2
     = ([''---(Node: generate_sql)---''], Inl (Exception ''GROQ_API_KEY is not set''), 2)
   \<and> invoke (get_compiled_app
               (demo_env_no_key (Inr ''users(id)'') (Inr ''SELECT 1;'') (Inr ''[(1,)]'') (Inr ''One.'')))
       (initial_state ''How many users are there?'' ''postgresql://db'') 0
     = ([''---(Node: get_schema)---'', ''---(Node: generate_sql)---''],
        Inl (Raised (Exception ''GROQ_API_KEY is not set'')), 2)"
proof (intro conjI)
  let ?E = "demo_env_no_key (Inr ''users(id)'') (Inr ''SELECT 1;'') (Inr ''[(1,)]'') (Inr ''One.'')"
  let ?s0 = "initial_state ''How many users are there?'' ''postgresql://db''"
  let ?u1 = "[''schema'' \<mapsto> PStr ''users(id)'', ''error'' \<mapsto> PNone]"
  show "get_schema ?E ?s0 0 = ([''---(Node: get_schema)---''], Inr ?u1, 2)"
    using demo_no_key_get_schema[of "''users(id)''" _ _ _ _ _ 0] by simp
  show "\<not> truthy ((?s0 ++ ?u1) ''error'')" by simp
  show "generate_sql ?E (?s0 ++ ?u1) 2 =
      ([''---(Node: generate_sql)---''], Inl (Exception ''GROQ_API_KEY is not set''), 2)"
    by (rule demo_no_key_generate_sql)
  show "invoke (get_compiled_app ?E) ?s0 0 =
      ([''---(Node: get_schema)---'', ''---(Node: generate_sql)---''],
       Inl (Raised (Exception ''GROQ_API_KEY is not set'')), 2)"
    unfolding invoke_pipeline demo_no_key_run by simp
qed

text \<open>
  C2. \<open>generate_answer\<close> is to run exactly once in every run. In the world with no API
  key and a readable schema, the exception of the constructor in \<open>generate_sql\<close> ends the
  run after two nodes: the banner that \<open>generate_answer\<close> prints on entry is not printed,
  and \<open>run_agent_graph\<close> raises instead of returning an answer.
\<close>

theorem generate_answer_not_reached:
  "count_list
     (fst (invoke (get_compiled_app
                    (demo_env_no_key (Inr ''users(id)'') (Inr ''SELECT 1;'') (Inr ''[(1,)]'')
                       (Inr ''One.'')))
             (initial_state ''How many users are there?'' ''postgresql://db'') 0))
     ''---(Node: generate_answer)---'' = 0
   \<and> run_agent_graph
       (demo_env_no_key (Inr ''users(id)'') (Inr ''SELECT 1;'') (Inr ''[(1,)]'') (Inr ''One.''))
       ''How many users are there?'' ''postgresql://db'' 0
     = ([''---(Node: get_schema)---'', ''---(Node: generate_sql)---''],
        Inl (Raised (Exception ''GROQ_API_KEY is not set'')), 2)"
  unfolding invoke_pipeline run_agent_graph_pipeline demo_no_key_run by simp

text \<open>
  C3. When the Query Synthesizer runs (no error recorded, schema and question present,
  the client built) and the LLM answers \<open>content\<close>, the update stores under \<open>sql_query\<close>:
  the text \<open>SELECT 1;\<close> when \<open>content\<close> is that statement inside a fence opened with the
  sql tag, and \<open>content\<close> with the surrounding whitespace trimmed when \<open>content\<close>
  contains no run of three backticks.
\<close>

theorem generate_sql_strips_fence:
  assumes "\<not> truthy (state ''error'')"
    and "state ''schema'' = Some sc" and "state ''question'' = Some qu"
    and "chat_groq env w = (Inr llm, w0)"
    and "llm_invoke env llm (sql_prompt sc qu) w0 = (Inr content, w1)"
  shows "\<exists>upd. generate_sql env state w = ([''---(Node: generate_sql)---''], Inr upd, w1)
           \<and> (content = ''```sql\<newline>SELECT 1;\<newline>```''
                \<longrightarrow> upd ''sql_query'' = Some (PStr ''SELECT 1;''))
           \<and> (\<not> sublist ''```'' content
                \<longrightarrow> upd ''sql_query'' = Some (PStr (py_strip content)))"
  using generate_sql_response[where state = state, OF assms]
  by (auto simp: clean_sql_select_1 clean_sql_no_fence)

text \<open>
  C3 on the fenced response and on a response without a fence.
\<close>

theorem generate_sql_strips_fence_witness:
  "(\<exists>upd. generate_sql (demo_env (Inr ''t'') (Inr ''```sql\<newline>SELECT 1;\<newline>```'') (Inr ''r'') (Inr ''a''))
            [''question'' \<mapsto> PStr ''q'', ''schema'' \<mapsto> PStr ''t''] 0
          = ([''---(Node: generate_sql)---''], Inr upd, 1)
        \<and> upd ''sql_query'' = Some (PStr ''SELECT 1;''))
   \<and> (\<exists>upd. generate_sql (demo_env (Inr ''t'') (Inr ''  SELECT 2; '') (Inr ''r'') (Inr ''a''))
            [''question'' \<mapsto> PStr ''q'', ''schema'' \<mapsto> PStr ''t''] 0
          = ([''---(Node: generate_sql)---''], Inr upd, 1)
        \<and> upd ''sql_query'' = Some (PStr ''SELECT 2;''))"
proof -
  let ?st = "[''question'' \<mapsto> PStr ''q'', ''schema'' \<mapsto> PStr ''t'']"
  let ?e1 = "demo_env (Inr ''t'') (Inr ''```sql\<newline>SELECT 1;\<newline>```'') (Inr ''r'') (Inr ''a'')"
  let ?e2 = "demo_env (Inr ''t'') (Inr ''  SELECT 2; '') (Inr ''r'') (Inr ''a'')"
  have h: "\<not> truthy (?st ''error'')" "?st ''schema'' = Some (PStr ''t'')"
    "?st ''question'' = Some (PStr ''q'')" by simp_all
  have c1: "chat_groq ?e1 0 = (Inr (), 0)" by (rule demo_chat_groq)
  have c2: "chat_groq ?e2 0 = (Inr (), 0)" by (rule demo_chat_groq)
  have l1: "llm_invoke ?e1 () (sql_prompt (PStr ''t'') (PStr ''q'')) 0
              = (Inr ''```sql\<newline>SELECT 1;\<newline>```'', 1)"
    by (simp add: demo_env_def sql_prompt_def)
  have l2: "llm_invoke ?e2 () (sql_prompt (PStr ''t'') (PStr ''q'')) 0 = (Inr ''  SELECT 2; '', 1)"
    by (simp add: demo_env_def sql_prompt_def)
  have n: "\<not> sublist ''```'' ''  SELECT 2; ''" by code_simp
  have s: "py_strip ''  SELECT 2; '' = ''SELECT 2;''" by code_simp
  have a: "\<exists>upd. generate_sql ?e1 ?st 0 = ([''---(Node: generate_sql)---''], Inr upd, 1)
             \<and> upd ''sql_query'' = Some (PStr ''SELECT 1;'')"
    using generate_sql_strips_fence[where state = ?st, OF h c1 l1] by blast
  have b: "\<exists>upd. generate_sql ?e2 ?st 0 = ([''---(Node: generate_sql)---''], Inr upd, 1)
             \<and> upd ''sql_query'' = Some (PStr ''SELECT 2;'')"
    using generate_sql_strips_fence[where state = ?st, OF h c2 l2] n unfolding s by blast
  from a b show ?thesis by blast
qed

text \<open>
  C4, as stated: cleaning twice is cleaning once, for every input. It fails on a
  response fenced twice, where the first pass leaves a fenced statement and the second
  pass unwraps it.
\<close>

theorem clean_sql_not_idempotent:
  "clean_sql (clean_sql ''```sql\<newline>```sql\<newline>SELECT 1;\<newline>```\<newline>```'')
     \<noteq> clean_sql ''```sql\<newline>```sql\<newline>SELECT 1;\<newline>```\<newline>```''"
  by code_simp

text \<open>
  C4, amended. Cleaning twice is cleaning once exactly for the inputs whose cleaned text
  neither starts with the sql-tagged opener nor ends with three backticks.
\<close>

theorem clean_sql_idempotent_iff:
  "clean_sql (clean_sql s) = clean_sql s
     \<longleftrightarrow> \<not> prefix ''```sql'' (clean_sql s) \<and> \<not> suffix ''```'' (clean_sql s)"
proof
  assume eq: "clean_sql (clean_sql s) = clean_sql s"
  show "\<not> prefix ''```sql'' (clean_sql s) \<and> \<not> suffix ''```'' (clean_sql s)"
  proof (rule ccontr)
    assume "\<not> ?thesis"
    then have "prefix ''```sql'' (clean_sql s) \<or> suffix ''```'' (clean_sql s)" by blast
    from clean_sql_shorter[OF py_strip_clean_sql this] eq show False by simp
  qed
next
  assume "\<not> prefix ''```sql'' (clean_sql s) \<and> \<not> suffix ''```'' (clean_sql s)"
  then show "clean_sql (clean_sql s) = clean_sql s"
    using clean_sql_fixed[of "clean_sql s"] by (simp add: py_strip_clean_sql)
qed

text \<open>
  C4, amended, on the response fenced once.
\<close>

theorem clean_sql_idempotent_iff_witness:
  "\<not> prefix ''```sql'' (clean_sql ''```sql\<newline>SELECT 1;\<newline>```'')
   \<and> \<not> suffix ''```'' (clean_sql ''```sql\<newline>SELECT 1;\<newline>```'')
   \<and> clean_sql (clean_sql ''```sql\<newline>SELECT 1;\<newline>```'') = clean_sql ''```sql\<newline>SELECT 1;\<newline>```''"
proof -
  have p: "\<not> prefix ''```sql'' (clean_sql ''```sql\<newline>SELECT 1;\<newline>```'')"
    by code_simp
  have q: "\<not> suffix ''```'' (clean_sql ''```sql\<newline>SELECT 1;\<newline>```'')"
    by code_simp
  show ?thesis
    using clean_sql_idempotent_iff[of "''```sql\<newline>SELECT 1;\<newline>```''"] p q by blast
qed

text \<open>
  C5. Two states with the same \<open>question\<close> and the same non-empty \<open>error\<close> give the
  same prompt, and so the same call of the LLM and the same result of
  \<open>generate_answer\<close>, whatever they hold under \<open>sql_query\<close> and \<open>sql_result\<close>.
\<close>

theorem error_prompt_ignores_query_and_result:
  assumes "s1 ''question'' = s2 ''question''"
    and "s1 ''error'' = Some (PStr e)" and "s2 ''error'' = Some (PStr e)" and "e \<noteq> []"
  shows "answer_prompt s1 = answer_prompt s2
       \<and> generate_answer env s1 w = generate_answer env s2 w"
proof -
  have "answer_prompt s1 = answer_prompt s2"
    using assms by (cases "s2 ''question''") (simp_all add: answer_prompt_def getitem_def)
  then show ?thesis by (simp add: generate_answer_def)
qed

text \<open>
  C5 on two states that differ in \<open>sql_query\<close> and \<open>sql_result\<close>.
\<close>

theorem error_prompt_ignores_query_and_result_witness:
  "[''question'' \<mapsto> PStr ''q'', ''error'' \<mapsto> PStr ''boom'', ''sql_query'' \<mapsto> PStr ''SELECT 1;'',
    ''sql_result'' \<mapsto> PStr ''[(1,)]''] ''sql_query''
     \<noteq> [''question'' \<mapsto> PStr ''q'', ''error'' \<mapsto> PStr ''boom''] ''sql_query''
   \<and> answer_prompt [''question'' \<mapsto> PStr ''q'', ''error'' \<mapsto> PStr ''boom'',
                     ''sql_query'' \<mapsto> PStr ''SELECT 1;'', ''sql_result'' \<mapsto> PStr ''[(1,)]'']
     = answer_prompt [''question'' \<mapsto> PStr ''q'', ''error'' \<mapsto> PStr ''boom'']
   \<and> generate_answer (demo_env (Inr ''t'') (Inr ''s'') (Inr ''r'') (Inr ''a''))
       [''question'' \<mapsto> PStr ''q'', ''error'' \<mapsto> PStr ''boom'',
        ''sql_query'' \<mapsto> PStr ''SELECT 1;'', ''sql_result'' \<mapsto> PStr ''[(1,)]''] 0
     = generate_answer (demo_env (Inr ''t'') (Inr ''s'') (Inr ''r'') (Inr ''a''))
         [''question'' \<mapsto> PStr ''q'', ''error'' \<mapsto> PStr ''boom''] 0"
proof -
  let ?s1 = "[''question'' \<mapsto> PStr ''q'', ''error'' \<mapsto> PStr ''boom'',
              ''sql_query'' \<mapsto> PStr ''SELECT 1;'', ''sql_result'' \<mapsto> PStr ''[(1,)]'']"
  let ?s2 = "[''question'' \<mapsto> PStr ''q'', ''error'' \<mapsto> PStr ''boom'']"
  have h: "?s1 ''question'' = ?s2 ''question''" "?s1 ''error'' = Some (PStr ''boom'')"
    "?s2 ''error'' = Some (PStr ''boom'')" "''boom'' \<noteq> []" by simp_all
  have d: "?s1 ''sql_query'' \<noteq> ?s2 ''sql_query''" by simp
  from error_prompt_ignores_query_and_result[where ?s1.0 = ?s1 and ?s2.0 = ?s2
      and env = "demo_env (Inr ''t'') (Inr ''s'') (Inr ''r'') (Inr ''a'')" and w = 0, OF h] d
  show ?thesis by blast
qed

text \<open>
  C6. On a state whose \<open>error\<close> is a non-empty string, an update returned by
  \<open>generate_sql\<close>, \<open>execute_sql\<close> or \<open>generate_answer\<close> leaves \<open>error\<close> as it is. In
  a run, if \<open>error\<close> is a non-empty string after the first \<open>k\<close> nodes of the chain,
  it has the same value after the first \<open>j\<close> nodes, for every \<open>j\<close> from \<open>k\<close> on.
\<close>

theorem error_stays_set:
  fixes env :: "('w, 'db, 'llm) env"
  shows "(\<forall>state f out upd w' w1.
            truthy (state ''error'') \<longrightarrow>
            f \<in> {generate_sql env, execute_sql env, generate_answer env} \<longrightarrow>
            f state w' = (out, Inr upd, w1) \<longrightarrow>
            (state ++ upd) ''error'' = state ''error'')
       \<and> (\<forall>k j ok sk wk oj sj wj.
            k \<le> j \<longrightarrow>
            run_nodes (take k (pipeline env)) (initial_state q uri) w = (ok, Inr sk, wk) \<longrightarrow>
            truthy (sk ''error'') \<longrightarrow>
            run_nodes (take j (pipeline env)) (initial_state q uri) w = (oj, Inr sj, wj) \<longrightarrow>
            sj ''error'' = sk ''error'')"
proof (intro conjI allI impI)
  fix state :: state and f :: "'w node" and out upd w' w1
  assume "truthy (state ''error'')"
    and "f \<in> {generate_sql env, execute_sql env, generate_answer env}"
    and "f state w' = (out, Inr upd, w1)"
  then have "upd ''error'' = None" by (rule later_node_keeps_error)
  then show "(state ++ upd) ''error'' = state ''error''" by (simp add: map_add_def)
next
  fix k j :: nat and ok sk wk oj sj wj
  assume kj: "k \<le> j"
    and rk: "run_nodes (take k (pipeline env)) (initial_state q uri) w = (ok, Inr sk, wk)"
    and tr: "truthy (sk ''error'')"
    and rj: "run_nodes (take j (pipeline env)) (initial_state q uri) w = (oj, Inr sj, wj)"
  have "k \<noteq> 0"
  proof
    assume "k = 0"
    with rk have "sk = initial_state q uri" by simp
    with tr show False by (simp add: initial_state_def)
  qed
  then have k1: "1 \<le> k" by simp
  let ?rest = "drop k (take j (pipeline env))"
  have "take j (pipeline env) = take k (pipeline env) @ ?rest"
    using kj append_take_drop_id[of k "take j (pipeline env)"] by (simp add: min_def)
  then have "run_nodes (take k (pipeline env) @ ?rest) (initial_state q uri) w = (oj, Inr sj, wj)"
    using rj by simp
  then obtain o' where rest: "run_nodes ?rest sk wk = (o', Inr sj, wj)"
    unfolding run_nodes_append rk by (auto split: prod.splits)
  have "set ?rest \<subseteq> set (drop k (pipeline env))"
    by (simp add: drop_take set_take_subset)
  also have "\<dots> \<subseteq> set (drop 1 (pipeline env))"
    using k1 by (rule set_drop_subset_set_drop)
  also have "\<dots> = {generate_sql env, execute_sql env, generate_answer env}"
    by (simp add: pipeline_def)
  finally have "set ?rest \<subseteq> {generate_sql env, execute_sql env, generate_answer env}" .
  then show "sj ''error'' = sk ''error''"
    using tr rest by (rule run_nodes_keep_error)
qed

text \<open>
  C6 on a run whose schema cannot be read, after one node and after all four.
\<close>

theorem error_stays_set_witness:
  "(\<exists>ok sk wk oj sj wj.
      run_nodes (take 1 (pipeline (demo_env (Inl (Exception ''connection refused'')) (Inr ''SELECT 1;'')
                                     (Inr ''[(1,)]'') (Inr ''Sorry.''))))
        (initial_state ''How many?'' ''postgresql://db'') 0 = (ok, Inr sk, wk)
    \<and> truthy (sk ''error'')
    \<and> run_nodes (take 4 (pipeline (demo_env (Inl (Exception ''connection refused'')) (Inr ''SELECT 1;'')
                                     (Inr ''[(1,)]'') (Inr ''Sorry.''))))
        (initial_state ''How many?'' ''postgresql://db'') 0 = (oj, Inr sj, wj)
    \<and> sj ''error'' = sk ''error''
    \<and> sj ''error'' = Some (PStr ''Error getting schema: connection refused''))
   \<and> ([''question'' \<mapsto> PStr ''q'', ''error'' \<mapsto> PStr ''boom''] ++ Map.empty) ''error''
       = [''question'' \<mapsto> PStr ''q'', ''error'' \<mapsto> PStr ''boom''] ''error''"
proof -
  let ?E = "demo_env (Inl (Exception ''connection refused'')) (Inr ''SELECT 1;'')
              (Inr ''[(1,)]'') (Inr ''Sorry.'')"
  let ?q = "''How many?''" and ?uri = "''postgresql://db''"
  let ?s1 = "initial_state ?q ?uri ++ [''error'' \<mapsto> PStr ''Error getting schema: connection refused'']"
  note t = error_stays_set[of ?E ?q ?uri 0]
  have g1: "get_schema ?E (initial_state ?q ?uri) 0 =
      ([''---(Node: get_schema)---'', ''Error getting schema: connection refused''],
       Inr [''error'' \<mapsto> PStr ''Error getting schema: connection refused''], 2)"
    by (simp add: get_schema_def demo_get_schema_try)
  have r1: "run_nodes (take 1 (pipeline ?E)) (initial_state ?q ?uri) 0 =
      ([''---(Node: get_schema)---'', ''Error getting schema: connection refused''], Inr ?s1, 2)"
    by (simp add: pipeline_def g1)
  have tr: "truthy (?s1 ''error'')" by simp
  from demo_pipeline[of "Inl (Exception ''connection refused'')" "Inr ''SELECT 1;''"
      "Inr ''[(1,)]''" "Inr ''Sorry.''" ?q ?uri 0]
  obtain out s3 w3 where
    f: "run_nodes (pipeline ?E) (initial_state ?q ?uri) 0 =
         (out @ [''---(Node: generate_answer)---''],
          Inr (s3 ++ [''answer'' \<mapsto> PStr ''Sorry.'']), w3 + 1)"
    by auto
  have r4: "run_nodes (take 4 (pipeline ?E)) (initial_state ?q ?uri) 0 =
      (out @ [''---(Node: generate_answer)---''], Inr (s3 ++ [''answer'' \<mapsto> PStr ''Sorry.'']), w3 + 1)"
  proof -
    have tk: "take 4 (pipeline ?E) = pipeline ?E" by (simp add: pipeline_def)
    show ?thesis unfolding tk by (rule f)
  qed
  note later = t[THEN conjunct2, rule_format]
  have le: "(1::nat) \<le> 4" by simp
  have keep: "(s3 ++ [''answer'' \<mapsto> PStr ''Sorry.'']) ''error'' = ?s1 ''error''"
    by (rule later[OF le r1 tr r4])
  have v: "(s3 ++ [''answer'' \<mapsto> PStr ''Sorry.'']) ''error''
             = Some (PStr ''Error getting schema: connection refused'')"
    unfolding keep by simp
  have first: "\<exists>ok sk wk oj sj wj.
      run_nodes (take 1 (pipeline ?E)) (initial_state ?q ?uri) 0 = (ok, Inr sk, wk)
    \<and> truthy (sk ''error'')
    \<and> run_nodes (take 4 (pipeline ?E)) (initial_state ?q ?uri) 0 = (oj, Inr sj, wj)
    \<and> sj ''error'' = sk ''error''
    \<and> sj ''error'' = Some (PStr ''Error getting schema: connection refused'')"
    by (intro exI conjI) (rule r1, rule tr, rule r4, rule keep, rule v)
  let ?err = "[''question'' \<mapsto> PStr ''q'', ''error'' \<mapsto> PStr ''boom'']"
  have te: "truthy (?err ''error'')" by simp
  have sk: "execute_sql ?E ?err 0 = ([''---(Node: execute_sql)---''], Inr Map.empty, 0)"
    by (rule execute_sql_skip[where state = ?err, OF te])
  have mem: "execute_sql ?E \<in> {generate_sql ?E, execute_sql ?E, generate_answer ?E}" by simp
  note each = t[THEN conjunct1, rule_format]
  have second: "(?err ++ Map.empty) ''error'' = ?err ''error''"
    by (rule each[where state = ?err and f = "execute_sql ?E" and w' = 0, OF te mem sk])
  from first second show ?thesis by (rule conjI)
qed

text \<open>
  C7. When \<open>execute_sql\<close> runs on a state that holds a query and its \<open>try\<close> block
  raises \<open>e\<close>, the update sets \<open>error\<close> to a message that contains the text of
  \<open>e\<close> and the whole text of \<open>sql_query\<close>, and does not set \<open>sql_result\<close>.
\<close>

theorem execute_sql_error_message:
  assumes "\<not> truthy (state ''error'')" and "state ''sql_query'' = Some sq"
    and "execute_sql_try env state w = (Inl e, w1)"
  shows "\<exists>out upd m. execute_sql env state w = (out, Inr upd, w1)
           \<and> upd ''error'' = Some (PStr m)
           \<and> sublist (exn_str e) m \<and> sublist (py_format sq) m
           \<and> upd ''sql_result'' = None"
proof -
  let ?m = "''Error executing SQL: '' @ exn_str e @ ''. Check your query: '' @ py_format sq"
  have "sublist (exn_str e) ?m" by (rule sublist_appendI)
  moreover have "sublist (py_format sq) ?m"
    using sublist_appendI[of "py_format sq" "''Error executing SQL: '' @ exn_str e @ ''. Check your query: ''" "[]"]
    by simp
  ultimately show ?thesis
    using execute_sql_Inl[where state = state, OF assms] by simp
qed

text \<open>
  C7 on a query that names a missing column.
\<close>

theorem execute_sql_error_message_witness:
  "execute_sql_try (demo_env (Inr ''t'') (Inr ''s'') (Inl (Exception ''no such column'')) (Inr ''a''))
     [''db_uri'' \<mapsto> PStr ''postgresql://db'', ''sql_query'' \<mapsto> PStr ''SELECT nope;'',
      ''error'' \<mapsto> PNone] 0 = (Inl (Exception ''no such column''), 2)
   \<and> (\<exists>out upd m.
         execute_sql (demo_env (Inr ''t'') (Inr ''s'') (Inl (Exception ''no such column'')) (Inr ''a''))
           [''db_uri'' \<mapsto> PStr ''postgresql://db'', ''sql_query'' \<mapsto> PStr ''SELECT nope;'',
            ''error'' \<mapsto> PNone] 0 = (out, Inr upd, 2)
       \<and> upd ''error'' = Some (PStr m)
       \<and> sublist ''no such column'' m \<and> sublist ''SELECT nope;'' m
       \<and> upd ''sql_result'' = None)"
proof -
  let ?E = "demo_env (Inr ''t'') (Inr ''s'') (Inl (Exception ''no such column'')) (Inr ''a'')"
  let ?st = "[''db_uri'' \<mapsto> PStr ''postgresql://db'', ''sql_query'' \<mapsto> PStr ''SELECT nope;'',
              ''error'' \<mapsto> PNone]"
  have h: "\<not> truthy (?st ''error'')" "?st ''sql_query'' = Some (PStr ''SELECT nope;'')"
    by simp_all
  have t: "execute_sql_try ?E ?st 0 = (Inl (Exception ''no such column''), 2)"
    using demo_execute_sql_try[where state = ?st and uri = "PStr ''postgresql://db''"
        and sq = "PStr ''SELECT nope;''" and w = 0] by simp
  from execute_sql_error_message[where state = ?st, OF h t] t
  show ?thesis by simp
qed

text \<open>
  C8. \<open>run_agent_graph\<close> starts the graph on the state that holds the question and
  the connection descriptor, and returns the \<open>answer\<close> of the final state, or the fixed
  apology when the final state has no \<open>answer\<close>.
\<close>

theorem run_agent_graph_returns_answer:
  fixes env :: "('w, 'db, 'llm) env"
  shows "(\<forall>out final_state w1.
            invoke (get_compiled_app env) (initial_state q uri) w = (out, Inr final_state, w1) \<longrightarrow>
            run_agent_graph env q uri w =
              (out,
               Inr (case final_state ''answer'' of
                      Some a \<Rightarrow> a
                    | None \<Rightarrow> PStr (''I'' @ [CHR 0x27] @ ''m sorry, I encountered an error and couldn''
                                    @ [CHR 0x27] @ ''t process your request.'')),
               w1))
       \<and> initial_state q uri = [''question'' \<mapsto> PStr q, ''db_uri'' \<mapsto> PStr uri]
       \<and> (\<forall>final_state. final_state ''answer'' = None \<longrightarrow>
            get_answer final_state =
              PStr (''I'' @ [CHR 0x27] @ ''m sorry, I encountered an error and couldn''
                    @ [CHR 0x27] @ ''t process your request.''))
       \<and> (\<forall>final_state a. final_state ''answer'' = Some a \<longrightarrow> get_answer final_state = a)"
  by (simp add: run_agent_graph_def get_answer_def fallback_def initial_state_def
      split: option.splits)

text \<open>
  C8 on a run where everything succeeds, and on final states with and without
  \<open>answer\<close>.
\<close>

theorem run_agent_graph_returns_answer_witness:
  "(\<exists>out w1.
      run_agent_graph (demo_env (Inr ''t'') (Inr ''SELECT 1;'') (Inr ''[(1,)]'') (Inr ''One.''))
        ''How many?'' ''postgresql://db'' 0 = (out, Inr (PStr ''One.''), w1))
   \<and> get_answer Map.empty =
       PStr (''I'' @ [CHR 0x27] @ ''m sorry, I encountered an error and couldn''
             @ [CHR 0x27] @ ''t process your request.'')
   \<and> get_answer [''answer'' \<mapsto> PStr ''One.''] = PStr ''One.''"
proof -
  let ?E = "demo_env (Inr ''t'') (Inr ''SELECT 1;'') (Inr ''[(1,)]'') (Inr ''One.'')"
  let ?q = "''How many?''" and ?uri = "''postgresql://db''"
  note t = run_agent_graph_returns_answer[of ?E ?q ?uri 0]
  from demo_pipeline[of "Inr ''t''" "Inr ''SELECT 1;''" "Inr ''[(1,)]''" "Inr ''One.''" ?q ?uri 0]
  obtain out s3 w3 where
    f: "run_nodes (pipeline ?E) (initial_state ?q ?uri) 0 =
         (out @ [''---(Node: generate_answer)---''],
          Inr (s3 ++ [''answer'' \<mapsto> PStr ''One.'']), w3 + 1)"
    by auto
  have inv: "invoke (get_compiled_app ?E) (initial_state ?q ?uri) 0 =
      (out @ [''---(Node: generate_answer)---''], Inr (s3 ++ [''answer'' \<mapsto> PStr ''One.'']), w3 + 1)"
    unfolding invoke_pipeline f by simp
  from t inv have "run_agent_graph ?E ?q ?uri 0 =
      (out @ [''---(Node: generate_answer)---''],
       Inr (case (s3 ++ [''answer'' \<mapsto> PStr ''One.'']) ''answer'' of
              Some a \<Rightarrow> a
            | None \<Rightarrow> PStr (''I'' @ [CHR 0x27] @ ''m sorry, I encountered an error and couldn''
                            @ [CHR 0x27] @ ''t process your request.'')), w3 + 1)"
    by blast
  then have r: "\<exists>out w1. run_agent_graph ?E ?q ?uri 0 = (out, Inr (PStr ''One.''), w1)"
    by simp
  from t have g1: "get_answer Map.empty =
       PStr (''I'' @ [CHR 0x27] @ ''m sorry, I encountered an error and couldn''
             @ [CHR 0x27] @ ''t process your request.'')"
    by simp
  from t have "\<forall>final_state a. final_state ''answer'' = Some a \<longrightarrow> get_answer final_state = a"
    by blast
  then have g2: "get_answer [''answer'' \<mapsto> PStr ''One.''] = PStr ''One.''" by simp
  from r g1 g2 show ?thesis by blast
qed

text \<open>
  C9. An exception of the LLM call in \<open>generate_answer\<close> leaves \<open>generate_answer\<close>, and
  so does an exception of the constructor before it. In a run that reaches
  \<open>generate_answer\<close>, the prompt can be built, and either exception leaves \<open>invoke\<close> and
  \<open>run_agent_graph\<close> as that same exception: no \<open>answer\<close> is returned and nothing is
  recorded under \<open>error\<close>.
\<close>

theorem generate_answer_failure_propagates:
  fixes env :: "('w, 'db, 'llm) env"
  shows "(\<forall>state p llm e w' w0 w1.
            answer_prompt state = Inr p \<longrightarrow> chat_groq env w' = (Inr llm, w0) \<longrightarrow>
            llm_invoke env llm p w0 = (Inl e, w1) \<longrightarrow>
            generate_answer env state w' = ([''---(Node: generate_answer)---''], Inl e, w1))
       \<and> (\<forall>state p e w' w0.
            answer_prompt state = Inr p \<longrightarrow> chat_groq env w' = (Inl e, w0) \<longrightarrow>
            generate_answer env state w' = ([''---(Node: generate_answer)---''], Inl e, w0))
       \<and> (\<forall>out s3 w3.
            run_nodes [get_schema env, generate_sql env, execute_sql env] (initial_state q uri) w
              = (out, Inr s3, w3) \<longrightarrow>
            (\<exists>p. answer_prompt s3 = Inr p
               \<and> (\<forall>llm w4 e w5.
                     chat_groq env w3 = (Inr llm, w4) \<longrightarrow>
                     llm_invoke env llm p w4 = (Inl e, w5) \<longrightarrow>
                     invoke (get_compiled_app env) (initial_state q uri) w
                       = (out @ [''---(Node: generate_answer)---''], Inl (Raised e), w5)
                   \<and> run_agent_graph env q uri w
                       = (out @ [''---(Node: generate_answer)---''], Inl (Raised e), w5))
               \<and> (\<forall>e w4.
                     chat_groq env w3 = (Inl e, w4) \<longrightarrow>
                     invoke (get_compiled_app env) (initial_state q uri) w
                       = (out @ [''---(Node: generate_answer)---''], Inl (Raised e), w4)
                   \<and> run_agent_graph env q uri w
                       = (out @ [''---(Node: generate_answer)---''], Inl (Raised e), w4))))"
proof (intro conjI allI impI)
  fix state :: state and p llm e w' w0 w1
  assume "answer_prompt state = Inr p" and "chat_groq env w' = (Inr llm, w0)"
    and "llm_invoke env llm p w0 = (Inl e, w1)"
  then show "generate_answer env state w' = ([''---(Node: generate_answer)---''], Inl e, w1)"
    by (simp add: generate_answer_result)
next
  fix state :: state and p e w' w0
  assume "answer_prompt state = Inr p" and "chat_groq env w' = (Inl e, w0)"
  then show "generate_answer env state w' = ([''---(Node: generate_answer)---''], Inl e, w0)"
    by (simp add: generate_answer_result)
next
  fix out s3 w3
  assume r: "run_nodes [get_schema env, generate_sql env, execute_sql env] (initial_state q uri) w
               = (out, Inr s3, w3)"
  from first_three_prompt[OF r] obtain p where a: "answer_prompt s3 = Inr p" by blast
  note f = pipeline_after_three[OF r a]
  have 1: "\<forall>llm w4 e w5.
             chat_groq env w3 = (Inr llm, w4) \<longrightarrow>
             llm_invoke env llm p w4 = (Inl e, w5) \<longrightarrow>
             invoke (get_compiled_app env) (initial_state q uri) w
               = (out @ [''---(Node: generate_answer)---''], Inl (Raised e), w5)
           \<and> run_agent_graph env q uri w
               = (out @ [''---(Node: generate_answer)---''], Inl (Raised e), w5)"
    unfolding run_agent_graph_pipeline invoke_pipeline f by simp
  have 2: "\<forall>e w4.
             chat_groq env w3 = (Inl e, w4) \<longrightarrow>
             invoke (get_compiled_app env) (initial_state q uri) w
               = (out @ [''---(Node: generate_answer)---''], Inl (Raised e), w4)
           \<and> run_agent_graph env q uri w
               = (out @ [''---(Node: generate_answer)---''], Inl (Raised e), w4)"
    unfolding run_agent_graph_pipeline invoke_pipeline f by simp
  from a 1 2 show "\<exists>p. answer_prompt s3 = Inr p
               \<and> (\<forall>llm w4 e w5.
                     chat_groq env w3 = (Inr llm, w4) \<longrightarrow>
                     llm_invoke env llm p w4 = (Inl e, w5) \<longrightarrow>
                     invoke (get_compiled_app env) (initial_state q uri) w
                       = (out @ [''---(Node: generate_answer)---''], Inl (Raised e), w5)
                   \<and> run_agent_graph env q uri w
                       = (out @ [''---(Node: generate_answer)---''], Inl (Raised e), w5))
               \<and> (\<forall>e w4.
                     chat_groq env w3 = (Inl e, w4) \<longrightarrow>
                     invoke (get_compiled_app env) (initial_state q uri) w
                       = (out @ [''---(Node: generate_answer)---''], Inl (Raised e), w4)
                   \<and> run_agent_graph env q uri w
                       = (out @ [''---(Node: generate_answer)---''], Inl (Raised e), w4))"
    by blast
qed

text \<open>
  C9 on a run where only the last LLM call fails.
\<close>

theorem generate_answer_failure_propagates_witness:
  "\<exists>out w4.
      run_agent_graph
        (demo_env (Inr ''t'') (Inr ''SELECT 1;'') (Inr ''[(1,)]'') (Inl (Exception ''rate limit'')))
        ''How many?'' ''postgresql://db'' 0 = (out, Inl (Raised (Exception ''rate limit'')), w4)"
proof -
  let ?E = "demo_env (Inr ''t'') (Inr ''SELECT 1;'') (Inr ''[(1,)]'') (Inl (Exception ''rate limit''))"
  let ?q = "''How many?''" and ?uri = "''postgresql://db''"
  from demo_pipeline[of "Inr ''t''" "Inr ''SELECT 1;''" "Inr ''[(1,)]''"
      "Inl (Exception ''rate limit'')" ?q ?uri 0]
  obtain out s3 w3 where
    r: "run_nodes [get_schema ?E, generate_sql ?E, execute_sql ?E] (initial_state ?q ?uri) 0
          = (out, Inr s3, w3)"
    by blast
  note t = generate_answer_failure_propagates[of ?E ?q ?uri 0, THEN conjunct2, THEN conjunct2,
      rule_format, OF r]
  then obtain p where a: "answer_prompt s3 = Inr p"
    and i: "\<forall>llm w4 e w5.
              chat_groq ?E w3 = (Inr llm, w4) \<longrightarrow>
              llm_invoke ?E llm p w4 = (Inl e, w5) \<longrightarrow>
              invoke (get_compiled_app ?E) (initial_state ?q ?uri) 0
                = (out @ [''---(Node: generate_answer)---''], Inl (Raised e), w5)
            \<and> run_agent_graph ?E ?q ?uri 0
                = (out @ [''---(Node: generate_answer)---''], Inl (Raised e), w5)"
    by blast
  have c: "chat_groq ?E w3 = (Inr (), w3)" by (rule demo_chat_groq)
  have l: "llm_invoke ?E () p w3 = (Inl (Exception ''rate limit''), w3 + 1)"
    by (rule demo_llm_answer[OF a])
  from i c l have "run_agent_graph ?E ?q ?uri 0
      = (out @ [''---(Node: generate_answer)---''], Inl (Raised (Exception ''rate limit'')), w3 + 1)"
    by blast
  then show ?thesis by blast
qed

text \<open>
  C10. The result of \<open>get_schema\<close> does not depend on what the state holds under
  \<open>error\<close>. When its \<open>try\<close> block succeeds, the update sets \<open>schema\<close> and sets
  \<open>error\<close> to \<open>None\<close>, so the merged state holds \<open>None\<close> under \<open>error\<close>, whatever
  was there before.
\<close>

theorem get_schema_has_no_guard:
  fixes env :: "('w, 'db, 'llm) env"
  shows "(\<forall>x. get_schema env (state(''error'' := x)) w = get_schema env state w)
       \<and> (\<forall>upd w1. get_schema_try env state w = (Inr upd, w1) \<longrightarrow>
            (\<exists>sc. get_schema env state w =
                    ([''---(Node: get_schema)---''],
                     Inr [''schema'' \<mapsto> PStr sc, ''error'' \<mapsto> PNone], w1)
                 \<and> upd = [''schema'' \<mapsto> PStr sc, ''error'' \<mapsto> PNone])
            \<and> (state ++ upd) ''error'' = Some PNone
            \<and> \<not> truthy ((state ++ upd) ''error''))"
proof (intro conjI allI impI)
  fix x
  have "get_schema_try env (state(''error'' := x)) w = get_schema_try env state w"
    by (simp add: get_schema_try_def getitem_def)
  then show "get_schema env (state(''error'' := x)) w = get_schema env state w"
    by (simp add: get_schema_def)
next
  fix upd w1
  assume t: "get_schema_try env state w = (Inr upd, w1)"
  from get_schema_try_Inr[OF t] obtain sc where
    u: "upd = [''schema'' \<mapsto> PStr sc, ''error'' \<mapsto> PNone]" by blast
  from get_schema_Inr[OF t] u
  show "\<exists>sc. get_schema env state w =
                    ([''---(Node: get_schema)---''],
                     Inr [''schema'' \<mapsto> PStr sc, ''error'' \<mapsto> PNone], w1)
                 \<and> upd = [''schema'' \<mapsto> PStr sc, ''error'' \<mapsto> PNone]" by blast
  from u show "(state ++ upd) ''error'' = Some PNone" by simp
  from u show "\<not> truthy ((state ++ upd) ''error'')" by simp
qed

text \<open>
  C10 on a state with a recorded error.
\<close>

theorem get_schema_has_no_guard_witness:
  "truthy ([''db_uri'' \<mapsto> PStr ''postgresql://db'', ''error'' \<mapsto> PStr ''boom''] ''error'')
   \<and> get_schema (demo_env (Inr ''users(id)'') (Inr ''s'') (Inr ''r'') (Inr ''a''))
       [''db_uri'' \<mapsto> PStr ''postgresql://db'', ''error'' \<mapsto> PStr ''boom''] 0
       = ([''---(Node: get_schema)---''],
          Inr [''schema'' \<mapsto> PStr ''users(id)'', ''error'' \<mapsto> PNone], 2)
   \<and> ([''db_uri'' \<mapsto> PStr ''postgresql://db'', ''error'' \<mapsto> PStr ''boom'']
        ++ [''schema'' \<mapsto> PStr ''users(id)'', ''error'' \<mapsto> PNone]) ''error'' = Some PNone"
proof -
  let ?E = "demo_env (Inr ''users(id)'') (Inr ''s'') (Inr ''r'') (Inr ''a'')"
  let ?st = "[''db_uri'' \<mapsto> PStr ''postgresql://db'', ''error'' \<mapsto> PStr ''boom'']"
  let ?upd = "[''schema'' \<mapsto> PStr ''users(id)'', ''error'' \<mapsto> PNone]"
  have tr: "truthy (?st ''error'')" by simp
  have t: "get_schema_try ?E ?st 0 = (Inr ?upd, 2)"
    by (simp add: get_schema_try_def getitem_def demo_env_def)
  from get_schema_has_no_guard[of ?E ?st 0] t
  have "(\<exists>sc. get_schema ?E ?st 0 =
                ([''---(Node: get_schema)---''],
                 Inr [''schema'' \<mapsto> PStr sc, ''error'' \<mapsto> PNone], 2)
              \<and> ?upd = [''schema'' \<mapsto> PStr sc, ''error'' \<mapsto> PNone])
        \<and> (?st ++ ?upd) ''error'' = Some PNone"
    by blast
  then have "get_schema ?E ?st 0 = ([''---(Node: get_schema)---''], Inr ?upd, 2)
        \<and> (?st ++ ?upd) ''error'' = Some PNone"
    by metis
  with tr show ?thesis by blast
qed

end
